theory Spec2Isabelle
  imports Main
begin

section \<open>Shared vocabulary\<close>

text \<open>
  The repository is a SvelteKit front end with thin server-side proxies. Two source files
  carry the behaviour verified here:
  \<^item> \<^verbatim>\<open>src/components/DownloadButton.svelte\<close>: the format selector and its handler
    \<^verbatim>\<open>updateOutput\<close>;
  \<^item> \<^verbatim>\<open>src/routes/api/convert/[output_format]/+server.ts\<close>: the conversion proxy
    \<^verbatim>\<open>POST\<close>.

  JavaScript strings are modelled as \<^typ>\<open>string\<close> (their UTF-8 bytes), a value that
  may be \<^verbatim>\<open>undefined\<close> as an \<^typ>\<open>'a option\<close> with \<^term>\<open>None\<close> for
  \<^verbatim>\<open>undefined\<close>, raw bytes (a Blob, a request body) as \<^typ>\<open>string\<close> too.
\<close>

text \<open>
  \<^verbatim>\<open>CADMIMETypes\<close> of \<^verbatim>\<open>$lib/endpoints\<close>, as the repository's
  \<^verbatim>\<open>TEXT_TO_CAD_NEXTJS_SUPER_PROMPT.md\<close> lists it. The order is the object's key
  order, which \<^verbatim>\<open>Object.keys\<close> returns.
\<close>

definition CADMIMETypes :: "(string \<times> string) list" where
  "CADMIMETypes =
    [(''fbx'', ''application/octet-stream''),
     (''glb'', ''model/gltf-binary''),
     (''gltf'', ''model/gltf+json''),
     (''obj'', ''application/octet-stream''),
     (''ply'', ''application/octet-stream''),
     (''stl'', ''application/sla''),
     (''step'', ''application/STEP'')]"

text \<open>The exceptions a handler can end with instead of returning.\<close>

datatype exn = TypeError | SyntaxError | NetworkError | DecodeError

text \<open>
  A call of \<^verbatim>\<open>fetch\<close>: the URL and the fields of its init object (\<open>http_method\<close> is
  its \<^verbatim>\<open>method\<close>, \<open>credentials\<close> is \<^term>\<open>None\<close> when the field is not given).
\<close>

record request =
  url :: string
  http_method :: string
  headers :: "(string \<times> string) list"
  credentials :: "string option"
  body :: string

text \<open>
  The functions imported from \<^verbatim>\<open>$lib\<close> whose files are not among the sources are
  parameters of the model: the two URL builders of \<^verbatim>\<open>endpoints\<close>,
  \<^verbatim>\<open>base64ToBlob\<close> (which may throw) and \<^verbatim>\<open>toKebabCase\<close>.
\<close>

record lib =
  localConvert :: "string \<Rightarrow> string"
  convert :: "string \<Rightarrow> string"
  base64ToBlob :: "string option \<Rightarrow> exn + string"
  toKebabCase :: "string \<Rightarrow> string"

text \<open>JavaScript truthiness of a string that may be \<^verbatim>\<open>undefined\<close>.\<close>

definition truthy :: "string option \<Rightarrow> bool" where
  "truthy v = (case v of None \<Rightarrow> False | Some s \<Rightarrow> s \<noteq> [])"

text \<open>A value interpolated into a template literal.\<close>

definition interpolate :: "string option \<Rightarrow> string" where
  "interpolate v = (case v of None \<Rightarrow> ''undefined'' | Some s \<Rightarrow> s)"

subsection \<open>Decimal numerals and String.prototype.startsWith\<close>

text \<open>
  The decimal numeral of a natural number, used for HTTP status codes only: for a status
  code, as for every number that is an integer below \<^verbatim>\<open>1e21\<close>, it is the string that
  \<^verbatim>\<open>Number.prototype.toString\<close> returns. The built-in itself is not modelled: what it
  returns for the \<^verbatim>\<open>statusCode\<close> of a response is part of the response (see
  \<open>json_body\<close> below).
\<close>

definition digit :: "nat \<Rightarrow> char" where
  "digit d = char_of (48 + d)"

function digits :: "nat \<Rightarrow> string" where
  "digits n = (if n < 10 then [digit n] else digits (n div 10) @ [digit (n mod 10)])"
  by pat_completeness auto
termination
  by (relation "measure (\<lambda>n. n)") auto

declare digits.simps [simp del]

definition startsWith :: "string \<Rightarrow> string \<Rightarrow> bool" where
  "startsWith s p = (take (length p) s = p)"

subsection \<open>encodeURIComponent\<close>

text \<open>
  The built-in keeps the unreserved characters \<^verbatim>\<open>A-Z a-z 0-9 - _ . ! ~ * ' ( )\<close> and
  writes every other byte of the UTF-8 encoding as \<^verbatim>\<open>%XX\<close> in upper-case hexadecimal.
\<close>

definition unreserved :: "char \<Rightarrow> bool" where
  "unreserved c =
    (let n = (of_char c :: nat) in
      (65 \<le> n \<and> n \<le> 90) \<or> (97 \<le> n \<and> n \<le> 122) \<or> (48 \<le> n \<and> n \<le> 57)
      \<or> n \<in> {45, 95, 46, 33, 126, 42, 39, 40, 41})"

definition hex_digit :: "nat \<Rightarrow> char" where
  "hex_digit d = (if d < 10 then char_of (48 + d) else char_of (55 + d))"

definition encode_char :: "char \<Rightarrow> string" where
  "encode_char c =
    (if unreserved c then [c]
     else [CHR ''%'', hex_digit ((of_char c :: nat) div 16), hex_digit ((of_char c :: nat) mod 16)])"

definition encodeURIComponent :: "string \<Rightarrow> string" where
  "encodeURIComponent s = concat (map encode_char s)"

section \<open>The download button (DownloadButton.svelte)\<close>

datatype status = Loading | Ready | Failed

text \<open>What \<^verbatim>\<open>link.click()\<close> activates: the anchor's \<^verbatim>\<open>href\<close> and \<^verbatim>\<open>download\<close>.\<close>

record anchor =
  href :: string
  download :: string

text \<open>
  The component's variables. \<^verbatim>\<open>outputs\<close> is the object shared with the parent:
  \<^term>\<open>None\<close> when the prop is \<^verbatim>\<open>undefined\<close>, otherwise what a property read
  \<^verbatim>\<open>outputs[k]\<close> returns for each key, so that an assignment \<^verbatim>\<open>outputs[k] = v\<close> is
  a function update. The last two fields are not variables of the component: they log
  its effects, the \<^verbatim>\<open>fetch\<close> calls and the \<^verbatim>\<open>link.click()\<close> calls, oldest first.
\<close>

record component =
  prompt :: string
  outputs :: "(string \<Rightarrow> string option) option"
  code :: string
  currentOutput :: string
  outputData :: "string option"
  status :: status
  fetched :: "request list"
  clicked :: "anchor list"

text \<open>The key \<^verbatim>\<open>`source.${currentOutput}`\<close>.\<close>

definition source_key :: "string \<Rightarrow> string" where
  "source_key f = ''source.'' @ f"

text \<open>The options of the select element (line 20).\<close>

definition availableFormats :: "string \<Rightarrow> string list" where
  "availableFormats c = map fst CADMIMETypes @ (if c \<noteq> [] then [''kcl''] else [])"

text \<open>The reactive declarations (lines 26 to 32), recomputed from the variables.\<close>

definition currentMimeType :: "component \<Rightarrow> string option" where
  "currentMimeType st =
    (if currentOutput st = ''kcl'' then Some ''text/plain''
     else map_of CADMIMETypes (currentOutput st))"

definition dataUrl :: "component \<Rightarrow> string" where
  "dataUrl st =
    (if currentOutput st = ''kcl''
     then ''data:text/plain;charset=utf-8,'' @ encodeURIComponent (code st)
     else ''data:'' @ interpolate (currentMimeType st) @ '';base64,''
          @ interpolate (outputData st))"

definition fileName :: "lib \<Rightarrow> component \<Rightarrow> string" where
  "fileName l st = toKebabCase l (prompt st) @ ''.'' @ currentOutput st"

text \<open>
  \<^verbatim>\<open>await tick(); link.click()\<close>: after the tick the anchor carries the current
  \<^verbatim>\<open>dataUrl\<close> and \<^verbatim>\<open>fileName\<close>. The tick is modelled without another event in
  between.
\<close>

definition click :: "lib \<Rightarrow> component \<Rightarrow> component" where
  "click l st = st\<lparr>clicked := clicked st @ [\<lparr>href = dataUrl st, download = fileName l st\<rparr>]\<rparr>"

text \<open>
  What the handler's \<^verbatim>\<open>fetch\<close> resolves to, as far as the handler reads it: the
  response's HTTP status (for \<^verbatim>\<open>response.ok\<close>) and what \<^verbatim>\<open>response.json()\<close>
  gives. \<^term>\<open>Unparseable\<close> is a body that is not JSON (\<^verbatim>\<open>json()\<close> rejects),
  \<^term>\<open>Falsy\<close> a JSON value that \<^verbatim>\<open>!responseData\<close> accepts (\<^verbatim>\<open>null\<close>, \<^verbatim>\<open>false\<close>,
  \<^verbatim>\<open>0\<close>, the empty string), and \<^term>\<open>Object\<close> any other value, given by the two
  things the handler reads from it. The first is the string that
  \<^verbatim>\<open>responseData.statusCode.toString()\<close> returns, whatever kind of value the field
  holds (the decimal numeral for an HTTP status code, the string itself for a string),
  or \<^term>\<open>None\<close> when that call throws (the field is missing or \<^verbatim>\<open>null\<close>). The second
  is \<^verbatim>\<open>responseData.outputs\<close>, as what each of its keys holds, or \<^term>\<open>None\<close> when the
  field is missing or \<^verbatim>\<open>null\<close>, so that reading a key from it throws.
\<close>

datatype json_body =
  Unparseable
  | Falsy
  | Object "string option" "(string \<Rightarrow> string option) option"

datatype response = Rejected | Response nat json_body

text \<open>\<^verbatim>\<open>response.ok\<close> of the Fetch API.\<close>

definition ok :: "nat \<Rightarrow> bool" where
  "ok s = (200 \<le> s \<and> s \<le> 299)"

text \<open>How a part of the handler ends: it returned, it threw, or it is suspended at
  \<^verbatim>\<open>await fetch\<close>.\<close>

datatype outcome = Returned | Threw exn | Awaiting

text \<open>Lines 68 to 73, shared by the cache hit and the successful conversion.\<close>

definition finish :: "lib \<Rightarrow> component \<Rightarrow> outcome \<times> component" where
  "finish l st =
    (let st = st\<lparr>status := (if truthy (outputData st) then Ready else Failed)\<rparr>
     in (Returned, if truthy (outputData st) then click l st else st))"

text \<open>Lines 35 to 57: from the change event up to the \<^verbatim>\<open>await fetch\<close>.\<close>

definition updateOutput_begin :: "lib \<Rightarrow> component \<Rightarrow> string \<Rightarrow> outcome \<times> component" where
  "updateOutput_begin l st0 v =
    (let st = st0\<lparr>currentOutput := v, status := Loading\<rparr> in
     if currentOutput st = ''kcl'' then
       (let st = st\<lparr>status := (if code st \<noteq> [] then Ready else Failed)\<rparr>
        in (Returned, if code st \<noteq> [] then click l st else st))
     else
       (case outputs st of
          None \<Rightarrow> (Threw TypeError, st)
        | Some m \<Rightarrow>
            if truthy (m (source_key (currentOutput st)))
            then finish l (st\<lparr>outputData := m (source_key (currentOutput st))\<rparr>)
            else
              (case base64ToBlob l (m ''source.gltf'') of
                 Inl e \<Rightarrow> (Threw e, st)
               | Inr blob \<Rightarrow>
                   (Awaiting,
                    st\<lparr>fetched := fetched st @
                      [\<lparr>url = localConvert l (currentOutput st),
                        http_method = ''POST'',
                        headers = [(''Content-Type'', ''application/octet-stream'')],
                        credentials = Some ''include'',
                        body = blob\<rparr>]\<rparr>))))"

text \<open>
  Lines 59 to 73: the continuation, run when the fetch settles. It reads
  \<^verbatim>\<open>currentOutput\<close> and \<^verbatim>\<open>outputs\<close> from the component as they are then.
\<close>

definition updateOutput_resume :: "lib \<Rightarrow> component \<Rightarrow> response \<Rightarrow> outcome \<times> component" where
  "updateOutput_resume l st r =
    (case r of
       Rejected \<Rightarrow> (Threw NetworkError, st)
     | Response s b \<Rightarrow>
        (case b of
           Unparseable \<Rightarrow> (Threw SyntaxError, st)
         | Falsy \<Rightarrow> (Returned, st\<lparr>status := Failed\<rparr>)
         | Object sc ro \<Rightarrow>
            if \<not> ok s then (Returned, st\<lparr>status := Failed\<rparr>)
            else
              (case sc of
                 None \<Rightarrow> (Threw TypeError, st)
               | Some t \<Rightarrow>
                  if \<not> startsWith t ''2'' then (Returned, st\<lparr>status := Failed\<rparr>)
                  else
                    (case ro of
                       None \<Rightarrow> (Threw TypeError, st)
                     | Some res \<Rightarrow>
                        (case outputs st of
                           None \<Rightarrow> (Threw TypeError, st)
                         | Some m \<Rightarrow>
                            (let k = source_key (currentOutput st);
                                 m' = m(k := res k);
                                 st = st\<lparr>outputs := Some m'\<rparr>;
                                 st = st\<lparr>outputData := m' k\<rparr>
                             in finish l st))))))"

text \<open>
  One selection with nothing else in between: the handler runs to the fetch, and the
  continuation runs on the response \<open>r\<close> (which is not looked at when no fetch was made).
\<close>

definition updateOutput :: "lib \<Rightarrow> component \<Rightarrow> string \<Rightarrow> response \<Rightarrow> outcome \<times> component" where
  "updateOutput l st v r =
    (case updateOutput_begin l st v of
       (Awaiting, st') \<Rightarrow> updateOutput_resume l st' r
     | (Returned, st') \<Rightarrow> (Returned, st')
     | (Threw e, st') \<Rightarrow> (Threw e, st'))"

subsection \<open>Reading a data reference\<close>

text \<open>
  The reader's side of the \<^verbatim>\<open>data:\<close> URL, which is the user agent's and not code of the
  repository: the content of a \<^verbatim>\<open>text/plain\<close> reference is what follows the comma,
  percent-decoded. It is defined only to state what the reference built by
  \<^const>\<open>dataUrl\<close> holds.
\<close>

definition unhex :: "char \<Rightarrow> nat option" where
  "unhex c =
    (let n = (of_char c :: nat) in
     if 48 \<le> n \<and> n \<le> 57 then Some (n - 48)
     else if 65 \<le> n \<and> n \<le> 70 then Some (n - 55)
     else if 97 \<le> n \<and> n \<le> 102 then Some (n - 87)
     else None)"

fun percent_decode :: "string \<Rightarrow> string option" where
  "percent_decode [] = Some []"
| "percent_decode (c # h # l # rest) =
    (if c = CHR ''%'' then
       (case (unhex h, unhex l) of
          (Some a, Some b) \<Rightarrow> map_option ((#) (char_of (16 * a + b))) (percent_decode rest)
        | _ \<Rightarrow> None)
     else map_option ((#) c) (percent_decode (h # l # rest)))"
| "percent_decode (c # cs) =
    (if c = CHR ''%'' then None else map_option ((#) c) (percent_decode cs))"

definition text_plain_content :: "string \<Rightarrow> string option" where
  "text_plain_content u =
    (let p = ''data:text/plain;charset=utf-8,'' in
     if take (length p) u = p then percent_decode (drop (length p) u) else None)"

section \<open>The conversion proxy (routes/api/convert/[output_format]/+server.ts)\<close>

text \<open>JSON values; an object is given by what each key holds.\<close>

datatype json =
  JNull
  | JBool bool
  | JNum int
  | JStr string
  | JArr "json list"
  | JObj "string \<Rightarrow> json option"

text \<open>
  The two settings of \<^verbatim>\<open>$lib/env\<close> the handler reads, \<^verbatim>\<open>env.PROD\<close> and
  \<^verbatim>\<open>env.VITE_API_TOKEN\<close> (\<^term>\<open>None\<close> when it is not set).
\<close>

record env =
  env_PROD :: bool
  env_VITE_API_TOKEN :: "string option"

text \<open>
  What the upstream fetch settles to: it rejects, or it resolves with an HTTP status and
  a body that \<^verbatim>\<open>response.json()\<close> parses (\<^term>\<open>Some\<close> of the fields the spread
  \<^verbatim>\<open>...data\<close> copies, the own properties of the parsed value) or fails to parse
  (\<^term>\<open>None\<close>).
\<close>

datatype upstream = UpstreamRejected | Upstream nat "(string \<Rightarrow> json option) option"

text \<open>
  How the handler ends: \<^verbatim>\<open>throw error(status, message)\<close>, an exception of its own
  that nothing catches, or \<^verbatim>\<open>json(object)\<close>.
\<close>

datatype reply = Error nat string | Crash exn | Json "string \<Rightarrow> json option"

text \<open>The upstream call's arguments (lines 24 to 34), for a token, a format and a body.\<close>

definition convert_request :: "lib \<Rightarrow> string \<Rightarrow> string \<Rightarrow> string \<Rightarrow> request" where
  "convert_request l tok fmt req_body =
    \<lparr>url = convert l fmt,
     http_method = ''POST'',
     headers = [(''Content-Type'', ''application/octect-stream''),
                (''Authorization'', ''Bearer '' @ tok)],
     credentials = None,
     body = req_body\<rparr>"

text \<open>
  The handler, with the value of \<^verbatim>\<open>cookies.get(AUTH_COOKIE_NAME)\<close>, the text of the
  request body, \<^verbatim>\<open>params.output_format\<close> and the upstream service as arguments. It
  returns its reply and the upstream requests it made, in order. In the object literal
  \<^verbatim>\<open>{ statusCode: response.status, ...data }\<close> the fields of \<open>data\<close> come last, so they
  win: the map addition \<open>++\<close> prefers its right argument.
\<close>

definition POST ::
  "lib \<Rightarrow> env \<Rightarrow> string option \<Rightarrow> string \<Rightarrow> string option \<Rightarrow> (request \<Rightarrow> upstream)
    \<Rightarrow> reply \<times> request list" where
  "POST l e cookie req_body output_format fetch =
    (let token = (if env_PROD e then cookie else env_VITE_API_TOKEN e) in
     case (if truthy token then token else None) of
       None \<Rightarrow> (Error 401 ''You must be logged in to use this API.'', [])
     | Some tok \<Rightarrow>
        if req_body = [] then (Error 422 ''Please include the model as your fetch request body.'', [])
        else
          (case (if truthy output_format then output_format else None) of
             None \<Rightarrow> (Error 422 ''Please include the output format in the URL.'', [])
           | Some fmt \<Rightarrow>
              if \<not> list_ex (\<lambda>mimeType. fmt = mimeType) (map fst CADMIMETypes)
              then (Error 422 ''Invalid output format.'', [])
              else
                (let req = convert_request l tok fmt req_body
                 in case fetch req of
                      UpstreamRejected \<Rightarrow> (Crash NetworkError, [req])
                    | Upstream s None \<Rightarrow> (Crash SyntaxError, [req])
                    | Upstream s (Some data) \<Rightarrow>
                        (Json ([''statusCode'' \<mapsto> JNum (int s)] ++ data), [req]))))"

text \<open>A field of the JSON object the handler replied with, if it replied with one.\<close>

definition reply_field :: "reply \<Rightarrow> string \<Rightarrow> json option" where
  "reply_field rp k = (case rp of Json j \<Rightarrow> j k | Error c msg \<Rightarrow> None | Crash x \<Rightarrow> None)"

section \<open>Two selections before a response\<close>


text \<open>The property read \<^verbatim>\<open>outputs[k]\<close> on the component.\<close>

definition output_at :: "component \<Rightarrow> string \<Rightarrow> string option" where
  "output_at st k = (case outputs st of None \<Rightarrow> None | Some m \<Rightarrow> m k)"

section \<open>Instances for concrete runs\<close>

text \<open>
  The component as it is created (lines 10 to 17), given its props.
\<close>

definition init :: "string \<Rightarrow> (string \<Rightarrow> string option) option \<Rightarrow> string \<Rightarrow> component" where
  "init p outs c =
    \<lparr>prompt = p, outputs = outs, code = c, currentOutput = ''gltf'',
     outputData = (case outs of None \<Rightarrow> Some [] | Some m \<Rightarrow> m ''source.gltf''),
     status = Ready, fetched = [], clicked = []\<rparr>"

text \<open>
  An instance of the parameters, to run the model on concrete inputs: the URL builders
  put the format last in a path, \<^verbatim>\<open>base64ToBlob\<close> throws on \<^verbatim>\<open>undefined\<close> and
  otherwise hands its argument's bytes on, \<^verbatim>\<open>toKebabCase\<close> keeps its argument.
\<close>

text \<open>
  Components as created for a prompt "a gear": with the canonical source only, with a
  converted \<open>stl\<close> or \<open>obj\<close> beside it, and with no outputs but with or without source
  code text.
\<close>

definition sample_fresh :: component where
  "sample_fresh = init ''a gear'' (Some [''source.gltf'' \<mapsto> ''Z2xURg=='']) []"

definition sample_stl_cached :: component where
  "sample_stl_cached =
    init ''a gear'' (Some [''source.gltf'' \<mapsto> ''Z2xURg=='', ''source.stl'' \<mapsto> ''c3Rs'']) []"

definition sample_obj_cached :: component where
  "sample_obj_cached =
    init ''a gear'' (Some [''source.gltf'' \<mapsto> ''Z2xURg=='', ''source.obj'' \<mapsto> ''b2Jq'']) []"

definition sample_no_code :: component where
  "sample_no_code = init ''a gear'' (Some Map.empty) []"

definition sample_with_code :: component where
  "sample_with_code = init ''a gear'' (Some Map.empty) ''startSketchOn('XY')''"

text \<open>A development and a production setting of the proxy.\<close>

definition dev_env :: env where
  "dev_env = \<lparr>env_PROD = False, env_VITE_API_TOKEN = Some ''dev-token''\<rparr>"

definition prod_env :: env where
  "prod_env = \<lparr>env_PROD = True, env_VITE_API_TOKEN = Some ''dev-token''\<rparr>"

text \<open>
  Responses to the component's fetch: a successful conversion to \<open>stl\<close>, and a failure
  reported on both layers.
\<close>

definition stl_converted :: response where
  "stl_converted = Response 200 (Object (Some ''200'') (Some [''source.stl'' \<mapsto> ''c3Rs'']))"

definition conversion_failed :: response where
  "conversion_failed = Response 500 (Object (Some ''500'') None)"

text \<open>
  Upstream services for the proxy: one that cannot be reached, one that answers 201 with
  a conversion result, and one whose answer has a \<open>statusCode\<close> field of its own.
\<close>

definition upstream_down :: "request \<Rightarrow> upstream" where
  "upstream_down req = UpstreamRejected"

definition upstream_completed :: "request \<Rightarrow> upstream" where
  "upstream_completed req = Upstream 201 (Some [''status'' \<mapsto> JStr ''completed''])"

definition upstream_own_statusCode :: "request \<Rightarrow> upstream" where
  "upstream_own_statusCode req =
    Upstream 200 (Some [''statusCode'' \<mapsto> JNum 500, ''status'' \<mapsto> JStr ''failed''])"

definition sample_lib :: lib where
  "sample_lib =
    \<lparr>localConvert = (\<lambda>f. ''/api/convert/'' @ f),
     convert = (\<lambda>f. ''/file/conversion/gltf/'' @ f),
     base64ToBlob = (\<lambda>v. case v of None \<Rightarrow> Inl DecodeError | Some s \<Rightarrow> Inr s),
     toKebabCase = (\<lambda>s. s)\<rparr>"

section \<open>Properties of the download button\<close>

subsection \<open>Auxiliary facts\<close>

lemmas sample_defs =
  sample_fresh_def sample_stl_cached_def sample_obj_cached_def sample_no_code_def
  sample_with_code_def init_def sample_lib_def dev_env_def prod_env_def
  stl_converted_def conversion_failed_def
  upstream_down_def upstream_completed_def upstream_own_statusCode_def

lemma digit_2: "digit 2 = CHR ''2''"
  unfolding digit_def by code_simp

lemma digits_2xx:
  assumes "200 \<le> n" and "n \<le> 299"
  shows "startsWith (digits n) ''2''"
proof -
  have 1: "digits n = digits (n div 10) @ [digit (n mod 10)]"
    using assms digits.simps [of n] by simp
  have "\<not> n div 10 < 10" using assms by arith
  then have 2: "digits (n div 10) = digits (n div 10 div 10) @ [digit (n div 10 mod 10)]"
    using digits.simps [of "n div 10"] by simp
  have d: "n div 10 div 10 = 2" using assms by arith
  have 3: "digits (n div 10 div 10) = ''2''"
    unfolding d using digits.simps [of 2] by (simp add: digit_2)
  show ?thesis by (simp add: 1 2 3 startsWith_def)
qed

lemma digits_200: "digits 200 = ''200''"
  by code_simp

lemma supported_not_kcl: "f \<in> fst ` set CADMIMETypes \<Longrightarrow> f \<noteq> ''kcl''"
  by (auto simp: CADMIMETypes_def)

lemma begin_miss:
  assumes "outputs st = Some m"
    and "f \<noteq> ''kcl''"
    and "\<not> truthy (m (source_key f))"
    and "base64ToBlob l (m ''source.gltf'') = Inr blob"
  shows "updateOutput_begin l st f =
    (Awaiting,
     st\<lparr>currentOutput := f, status := Loading,
        fetched := fetched st @
          [\<lparr>url = localConvert l f, http_method = ''POST'',
            headers = [(''Content-Type'', ''application/octet-stream'')],
            credentials = Some ''include'', body = blob\<rparr>]\<rparr>)"
  using assms by (simp add: updateOutput_begin_def)

lemma begin_hit:
  assumes "outputs st = Some m"
    and "f \<noteq> ''kcl''"
    and "truthy (m (source_key f))"
  shows "updateOutput_begin l st f =
    (Returned,
     st\<lparr>currentOutput := f, status := Ready, outputData := m (source_key f),
        clicked := clicked st @
          [\<lparr>href = ''data:'' @ interpolate (map_of CADMIMETypes f) @ '';base64,''
                   @ interpolate (m (source_key f)),
            download = toKebabCase l (prompt st) @ ''.'' @ f\<rparr>]\<rparr>)"
  using assms
  by (simp add: updateOutput_begin_def finish_def click_def dataUrl_def fileName_def
      currentMimeType_def)

lemma begin_kcl:
  "updateOutput_begin l st ''kcl'' =
    (Returned,
     if code st \<noteq> [] then
       st\<lparr>currentOutput := ''kcl'', status := Ready,
          clicked := clicked st @
            [\<lparr>href = ''data:text/plain;charset=utf-8,'' @ encodeURIComponent (code st),
              download = toKebabCase l (prompt st) @ ''.kcl''\<rparr>]\<rparr>
     else st\<lparr>currentOutput := ''kcl'', status := Failed\<rparr>)"
  by (simp add: updateOutput_begin_def click_def dataUrl_def fileName_def)

lemma finish_fetched: "fetched (snd (finish l st)) = fetched st"
  by (simp add: finish_def click_def Let_def)

lemma resume_fetched: "fetched (snd (updateOutput_resume l st r)) = fetched st"
  by (simp add: updateOutput_resume_def finish_fetched Let_def
      split: response.splits json_body.splits option.splits)

lemma finish_truthy:
  "truthy (outputData st) \<Longrightarrow>
    finish l st = (Returned, st\<lparr>status := Ready,
      clicked := clicked st @ [\<lparr>href = dataUrl st, download = fileName l st\<rparr>]\<rparr>)"
  by (simp add: finish_def click_def dataUrl_def fileName_def currentMimeType_def)



lemma resume_success:
  assumes "outputs st = Some m" and "ok s" and "startsWith t ''2''"
  shows "updateOutput_resume l st (Response s (Object (Some t) (Some res))) =
    finish l (st\<lparr>outputs := Some (m(source_key (currentOutput st) := res (source_key (currentOutput st)))),
                 outputData := res (source_key (currentOutput st))\<rparr>)"
  using assms by (simp add: updateOutput_resume_def Let_def)

lemma hit_step:
  assumes "outputs st = Some m"
    and "f \<in> set (availableFormats (code st))"
    and "truthy (m (source_key f))"
  shows "fst (updateOutput l st f r) = Returned
    \<and> status (snd (updateOutput l st f r)) = Ready
    \<and> fetched (snd (updateOutput l st f r)) = fetched st
    \<and> outputs (snd (updateOutput l st f r)) = outputs st
    \<and> code (snd (updateOutput l st f r)) = code st
    \<and> clicked (snd (updateOutput l st f r)) =
        clicked st @
          [\<lparr>href = (if f = ''kcl''
                    then ''data:text/plain;charset=utf-8,'' @ encodeURIComponent (code st)
                    else ''data:'' @ interpolate (map_of CADMIMETypes f) @ '';base64,''
                         @ interpolate (m (source_key f))),
            download = toKebabCase l (prompt st) @ ''.'' @ f\<rparr>]"
proof (cases "f = ''kcl''")
  case True
  with assms(2) have "code st \<noteq> []"
    by (auto simp: availableFormats_def CADMIMETypes_def split: if_splits)
  with True show ?thesis
    by (simp add: updateOutput_def begin_kcl)
next
  case False
  then show ?thesis
    by (simp add: updateOutput_def begin_hit [OF assms(1) False assms(3)])
qed

subsection \<open>Percent-encoding can be read back\<close>

lemma unhex_hex_digit: "d < 16 \<Longrightarrow> unhex (hex_digit d) = Some d"
  by (auto simp: unhex_def hex_digit_def Let_def)

lemma percent_not_unreserved: "unreserved c \<Longrightarrow> c \<noteq> CHR ''%''"
  by (auto simp: unreserved_def)

lemma percent_decode_plain:
  "c \<noteq> CHR ''%'' \<Longrightarrow> percent_decode (c # cs) = map_option ((#) c) (percent_decode cs)"
  by (cases cs rule: percent_decode.cases) auto

lemma percent_decode_escape:
  "percent_decode (CHR ''%'' # hex_digit ((of_char c :: nat) div 16) # hex_digit ((of_char c :: nat) mod 16) # cs)
     = map_option ((#) c) (percent_decode cs)"
proof -
  have "(of_char c :: nat) < 256" by simp
  then have "(of_char c :: nat) div 16 < 16" by arith
  then show ?thesis
    by (simp add: unhex_hex_digit)
qed

lemma percent_decode_encode_char:
  "percent_decode (encode_char c @ cs) = map_option ((#) c) (percent_decode cs)"
proof (cases "unreserved c")
  case True
  then show ?thesis
    by (simp add: encode_char_def percent_decode_plain percent_not_unreserved)
next
  case False
  then show ?thesis
    using percent_decode_escape [of c cs] by (simp add: encode_char_def)
qed

lemma percent_decode_encodeURIComponent: "percent_decode (encodeURIComponent s) = Some s"
  by (induction s) (simp_all add: encodeURIComponent_def percent_decode_encode_char)

lemma text_plain_content_dataUrl:
  "text_plain_content (''data:text/plain;charset=utf-8,'' @ encodeURIComponent s) = Some s"
  by (simp add: text_plain_content_def percent_decode_encodeURIComponent)

subsection \<open>Cache miss\<close>

text \<open>
  C1. For a supported concrete format \<open>f\<close> whose entry \<open>outputs[source.f]\<close> is absent or
  empty, a selection of \<open>f\<close> issues exactly one conversion request: whatever the
  response is, the log of fetch calls grows by one call, a POST to
  \<open>endpoints.localConvert(f)\<close> whose body is \<open>base64ToBlob(outputs['source.gltf'])\<close>, the
  decoded canonical source. The decoding is assumed to succeed (the source's comment:
  "we always have gLTF").
\<close>

theorem updateOutput_miss_requests_once:
  assumes "outputs st = Some m"
    and "f \<in> fst ` set CADMIMETypes"
    and "\<not> truthy (m (source_key f))"
    and "base64ToBlob l (m ''source.gltf'') = Inr blob"
  shows "fetched (snd (updateOutput l st f r)) =
           fetched st @
             [\<lparr>url = localConvert l f, http_method = ''POST'',
               headers = [(''Content-Type'', ''application/octet-stream'')],
               credentials = Some ''include'', body = blob\<rparr>]"
proof -
  have "f \<noteq> ''kcl''" using assms(2) by (rule supported_not_kcl)
  from begin_miss [OF assms(1) this assms(3) assms(4)]
  show ?thesis by (simp add: updateOutput_def resume_fetched)
qed

theorem updateOutput_miss_requests_once_witness:
  "fetched (snd (updateOutput sample_lib sample_fresh ''stl'' (Response 200 Falsy))) =
     [\<lparr>url = ''/api/convert/stl'', http_method = ''POST'',
       headers = [(''Content-Type'', ''application/octet-stream'')],
       credentials = Some ''include'', body = ''Z2xURg==''\<rparr>]"
  using updateOutput_miss_requests_once
    [of sample_fresh "[''source.gltf'' \<mapsto> ''Z2xURg=='']" "''stl''" sample_lib "''Z2xURg==''"
        "Response 200 Falsy"]
  by (simp add: sample_defs CADMIMETypes_def truthy_def source_key_def)

subsection \<open>Cache hit\<close>

text \<open>
  C2. For a format \<open>f\<close> that the select element offers and whose entry
  \<open>outputs[source.f]\<close> is present and non-empty, a selection of \<open>f\<close> returns with status
  ready, clicks the download link once and issues no conversion request. Selecting \<open>f\<close>
  again right after does the same: the log of fetch calls is still the one from before
  the first selection, so it holds no request beyond the one that filled the cache.
\<close>

theorem cached_selection:
  assumes "outputs st = Some m"
    and "f \<in> set (availableFormats (code st))"
    and "truthy (m (source_key f))"
  shows "fst (updateOutput l st f r) = Returned
    \<and> status (snd (updateOutput l st f r)) = Ready
    \<and> fetched (snd (updateOutput l st f r)) = fetched st
    \<and> clicked (snd (updateOutput l st f r)) =
        clicked st @
          [\<lparr>href = (if f = ''kcl''
                    then ''data:text/plain;charset=utf-8,'' @ encodeURIComponent (code st)
                    else ''data:'' @ interpolate (map_of CADMIMETypes f) @ '';base64,''
                         @ interpolate (m (source_key f))),
            download = toKebabCase l (prompt st) @ ''.'' @ f\<rparr>]
    \<and> status (snd (updateOutput l (snd (updateOutput l st f r)) f r')) = Ready
    \<and> fetched (snd (updateOutput l (snd (updateOutput l st f r)) f r')) = fetched st"
proof -
  let ?st' = "snd (updateOutput l st f r)"
  note first = hit_step [OF assms, of l r]
  from first assms have "outputs ?st' = Some m" "f \<in> set (availableFormats (code ?st'))"
    by simp_all
  note second = hit_step [OF this assms(3), of l r']
  from first second show ?thesis by simp
qed

theorem cached_selection_witness:
  "status (snd (updateOutput sample_lib sample_stl_cached ''stl'' Rejected)) = Ready
   \<and> fetched (snd (updateOutput sample_lib sample_stl_cached ''stl'' Rejected)) = []
   \<and> clicked (snd (updateOutput sample_lib sample_stl_cached ''stl'' Rejected))
       = [\<lparr>href = ''data:application/sla;base64,c3Rs'', download = ''a gear.stl''\<rparr>]
   \<and> fetched (snd (updateOutput sample_lib
         (snd (updateOutput sample_lib sample_stl_cached ''stl'' Rejected)) ''stl'' Rejected)) = []"
  using cached_selection
    [where st = sample_stl_cached
       and m = "[''source.gltf'' \<mapsto> ''Z2xURg=='', ''source.stl'' \<mapsto> ''c3Rs'']"
       and f = "''stl''" and l = sample_lib and r = Rejected and r' = Rejected]
  by (simp add: sample_defs availableFormats_def CADMIMETypes_def truthy_def
      source_key_def interpolate_def)

subsection \<open>A failed conversion\<close>

text \<open>
  The failures that the tests on lines 60 and 68 do catch: a falsy body, an object body
  on a non-2xx HTTP status, a \<open>statusCode\<close> whose text does not start with 2, and a body
  with a \<open>statusCode\<close> and an \<open>outputs\<close> object that holds no non-empty payload under
  \<open>source.f\<close>. On these the selection returns with status failed, a read of
  \<open>outputs[source.f]\<close> is still falsy, nothing is clicked and no second request is made.
  Other failures are not covered: the handler throws, with status left at loading, on a
  body that is not JSON, on an object without \<open>statusCode\<close> on a 2xx status, and on a
  success without an \<open>outputs\<close> object.
\<close>

lemma failed_conversion:
  assumes "outputs st = Some m"
    and "f \<in> fst ` set CADMIMETypes"
    and "\<not> truthy (m (source_key f))"
    and "base64ToBlob l (m ''source.gltf'') = Inr blob"
    and "b = Falsy
      \<or> (\<exists>sc ro. b = Object sc ro \<and> \<not> ok s)
      \<or> (\<exists>t ro. b = Object (Some t) ro \<and> \<not> startsWith t ''2'')
      \<or> (\<exists>sc res. b = Object (Some sc) (Some res) \<and> \<not> truthy (res (source_key f)))"
  shows "fst (updateOutput l st f (Response s b)) = Returned
    \<and> status (snd (updateOutput l st f (Response s b))) = Failed
    \<and> \<not> truthy (output_at (snd (updateOutput l st f (Response s b))) (source_key f))
    \<and> clicked (snd (updateOutput l st f (Response s b))) = clicked st
    \<and> length (fetched (snd (updateOutput l st f (Response s b)))) = Suc (length (fetched st))"
proof -
  have nk: "f \<noteq> ''kcl''" using assms(2) by (rule supported_not_kcl)
  note b = begin_miss [OF assms(1) nk assms(3) assms(4)]
  show ?thesis
    using assms(1,3,5)
    by (elim disjE exE conjE)
      (simp_all add: updateOutput_def b updateOutput_resume_def finish_def output_at_def
        Let_def truthy_def split: option.splits)
qed

text \<open>
  C3. A conversion whose response is a failure ends with status failed. The handler
  does not do so when the response body is not JSON: \<^verbatim>\<open>response.json()\<close> is awaited
  before \<^verbatim>\<open>response.ok\<close> is looked at and nothing catches its rejection. On a gateway's
  HTTP 502 with a body that is not JSON the handler ends with a SyntaxError and the
  status stays loading.
\<close>

theorem unparseable_body_leaves_loading:
  "fst (updateOutput sample_lib sample_fresh ''stl'' (Response 502 Unparseable))
     = Threw SyntaxError
   \<and> status (snd (updateOutput sample_lib sample_fresh ''stl'' (Response 502 Unparseable)))
     = Loading"
  by (simp add: updateOutput_def updateOutput_begin_def updateOutput_resume_def sample_defs
      truthy_def source_key_def)

subsection \<open>A successful conversion\<close>

text \<open>
  C4. For a selection of a supported concrete format \<open>f\<close> that causes a conversion
  request: if the response has a 2xx HTTP status, a 2xx embedded \<open>statusCode\<close> (an
  integer \<open>sc\<close> from 200 to 299, whose text is its decimal numeral) and a
  non-empty payload \<open>p\<close> under \<open>source.f\<close>, then \<open>p\<close> is written into the shared
  \<open>outputs\<close> at \<open>source.f\<close>, the final status is ready, and the download link is clicked
  exactly once, on a reference to \<open>p\<close> under the MIME type of \<open>f\<close>.
\<close>

theorem successful_conversion:
  assumes "outputs st = Some m"
    and "f \<in> fst ` set CADMIMETypes"
    and "\<not> truthy (m (source_key f))"
    and "base64ToBlob l (m ''source.gltf'') = Inr blob"
    and "200 \<le> s" and "s \<le> 299"
    and "200 \<le> sc" and "sc \<le> 299"
    and "res (source_key f) = Some p" and "p \<noteq> []"
  shows "fst (updateOutput l st f (Response s (Object (Some (digits sc)) (Some res)))) = Returned
    \<and> outputs (snd (updateOutput l st f (Response s (Object (Some (digits sc)) (Some res)))))
        = Some (m(source_key f \<mapsto> p))
    \<and> outputData (snd (updateOutput l st f (Response s (Object (Some (digits sc)) (Some res))))) = Some p
    \<and> status (snd (updateOutput l st f (Response s (Object (Some (digits sc)) (Some res))))) = Ready
    \<and> clicked (snd (updateOutput l st f (Response s (Object (Some (digits sc)) (Some res))))) =
        clicked st @
          [\<lparr>href = ''data:'' @ interpolate (map_of CADMIMETypes f) @ '';base64,'' @ p,
            download = toKebabCase l (prompt st) @ ''.'' @ f\<rparr>]"
proof -
  let ?r = "Response s (Object (Some (digits sc)) (Some res))"
  have nk: "f \<noteq> ''kcl''" using assms(2) by (rule supported_not_kcl)
  note b = begin_miss [OF assms(1) nk assms(3) assms(4)]
  let ?st1 = "snd (updateOutput_begin l st f)"
  have st1: "outputs ?st1 = Some m" "currentOutput ?st1 = f" "clicked ?st1 = clicked st"
    "prompt ?st1 = prompt st"
    using assms(1) by (simp_all add: b)
  have run: "updateOutput l st f ?r = updateOutput_resume l ?st1 ?r"
    by (simp add: updateOutput_def b)
  have oks: "ok s" using assms(5,6) by (simp add: ok_def)
  note rs = resume_success [OF st1(1) oks digits_2xx [OF assms(7,8)], of l res]
  let ?st2 = "?st1\<lparr>outputs := Some (m(source_key f := res (source_key f))),
                 outputData := res (source_key f)\<rparr>"
  have t: "truthy (outputData ?st2)" using assms(9,10) by (simp add: truthy_def)
  have "updateOutput l st f ?r = finish l ?st2"
    unfolding run rs st1(2) ..
  also note finish_truthy [OF t, of l]
  finally have fin: "updateOutput l st f ?r = (Returned, ?st2\<lparr>status := Ready,
      clicked := clicked ?st2 @ [\<lparr>href = dataUrl ?st2, download = fileName l ?st2\<rparr>]\<rparr>)" .
  have d: "dataUrl ?st2 = ''data:'' @ interpolate (map_of CADMIMETypes f) @ '';base64,'' @ p"
    using nk assms(9) by (simp add: dataUrl_def currentMimeType_def st1 interpolate_def)
  have n: "fileName l ?st2 = toKebabCase l (prompt st) @ ''.'' @ f"
    by (simp add: fileName_def st1)
  show ?thesis
    unfolding fin d n using assms(9) by (simp add: st1)
qed

theorem successful_conversion_witness:
  "status (snd (updateOutput sample_lib sample_fresh ''stl'' stl_converted))
     = Ready
   \<and> outputData (snd (updateOutput sample_lib sample_fresh ''stl'' stl_converted))
     = Some ''c3Rs''
   \<and> clicked (snd (updateOutput sample_lib sample_fresh ''stl'' stl_converted))
     = [\<lparr>href = ''data:application/sla;base64,c3Rs'', download = ''a gear.stl''\<rparr>]"
  using successful_conversion
    [where st = sample_fresh and m = "[''source.gltf'' \<mapsto> ''Z2xURg=='']"
       and f = "''stl''" and l = sample_lib and blob = "''Z2xURg==''"
       and s = 200 and sc = 200 and res = "[''source.stl'' \<mapsto> ''c3Rs'']" and p = "''c3Rs''"]
  by (simp add: sample_defs CADMIMETypes_def truthy_def source_key_def interpolate_def
      digits_200)

subsection \<open>The kcl pseudo-format\<close>

text \<open>
  C6. Selecting \<open>kcl\<close> never issues a network call. With no source code text the final
  status is failed (and nothing is clicked); with source code text the final status is
  ready and the link that is clicked is a \<open>text/plain\<close> data reference whose content,
  read back, is exactly that text.
\<close>

theorem kcl_selection:
  "fst (updateOutput l st ''kcl'' r) = Returned
   \<and> fetched (snd (updateOutput l st ''kcl'' r)) = fetched st
   \<and> (code st = [] \<longrightarrow>
        status (snd (updateOutput l st ''kcl'' r)) = Failed
        \<and> clicked (snd (updateOutput l st ''kcl'' r)) = clicked st)
   \<and> (code st \<noteq> [] \<longrightarrow>
        status (snd (updateOutput l st ''kcl'' r)) = Ready
        \<and> (\<exists>a. clicked (snd (updateOutput l st ''kcl'' r)) = clicked st @ [a]
             \<and> href a = ''data:text/plain;charset=utf-8,'' @ encodeURIComponent (code st)
             \<and> text_plain_content (href a) = Some (code st)))"
proof -
  let ?u = "''data:text/plain;charset=utf-8,'' @ encodeURIComponent (code st)"
  let ?a = "\<lparr>href = ?u, download = toKebabCase l (prompt st) @ ''.kcl''\<rparr>"
  let ?st' = "snd (updateOutput l st ''kcl'' r)"
  have run: "updateOutput l st ''kcl'' r = updateOutput_begin l st ''kcl''"
    by (simp add: updateOutput_def begin_kcl)
  have content: "text_plain_content (href ?a) = Some (code st)"
    by (simp only: anchor.select_convs text_plain_content_dataUrl)
  have empty: "status ?st' = Failed \<and> clicked ?st' = clicked st" if "code st = []"
    using that by (simp add: run begin_kcl)
  have "status ?st' = Ready \<and> clicked ?st' = clicked st @ [?a]" if "code st \<noteq> []"
    using that by (simp add: run begin_kcl)
  then have nonempty: "status ?st' = Ready
      \<and> (\<exists>a. clicked ?st' = clicked st @ [a] \<and> href a = ?u
            \<and> text_plain_content (href a) = Some (code st))"
    if "code st \<noteq> []"
    using that content by (intro conjI exI [of _ ?a]) simp_all
  have "fst (updateOutput l st ''kcl'' r) = Returned" "fetched ?st' = fetched st"
    by (simp_all add: run begin_kcl)
  with empty nonempty show ?thesis by blast
qed

theorem kcl_selection_witness:
  "status (snd (updateOutput sample_lib sample_no_code ''kcl'' Rejected)) = Failed
   \<and> fetched (snd (updateOutput sample_lib sample_no_code ''kcl'' Rejected)) = []
   \<and> clicked (snd (updateOutput sample_lib sample_no_code ''kcl'' Rejected)) = []
   \<and> status (snd (updateOutput sample_lib sample_with_code ''kcl'' Rejected)) = Ready
   \<and> fetched (snd (updateOutput sample_lib sample_with_code ''kcl'' Rejected)) = []
   \<and> map href (clicked (snd (updateOutput sample_lib sample_with_code ''kcl'' Rejected)))
       = [''data:text/plain;charset=utf-8,startSketchOn('XY')'']
   \<and> map (text_plain_content \<circ> href) (clicked (snd (updateOutput sample_lib sample_with_code ''kcl'' Rejected)))
       = [Some ''startSketchOn('XY')'']"
  using kcl_selection [of sample_lib sample_no_code Rejected]
    kcl_selection [of sample_lib sample_with_code Rejected]
  by (auto simp: sample_defs encodeURIComponent_def encode_char_def unreserved_def)

subsection \<open>A response that arrives after another selection\<close>









section \<open>Properties of the conversion proxy\<close>

subsection \<open>Auxiliary facts\<close>

lemma supported_list_ex:
  "list_ex (\<lambda>mimeType. fmt = mimeType) (map fst CADMIMETypes) \<longleftrightarrow> fmt \<in> fst ` set CADMIMETypes"
  by (auto simp: list_ex_iff)

lemma supported_truthy: "fmt \<in> fst ` set CADMIMETypes \<Longrightarrow> truthy (Some fmt)"
  by (auto simp: CADMIMETypes_def truthy_def)

lemma POST_valid:
  assumes "(if env_PROD e then cookie else env_VITE_API_TOKEN e) = Some tok" and "tok \<noteq> []"
    and "req_body \<noteq> []"
    and "fmt \<in> fst ` set CADMIMETypes"
  shows "POST l e cookie req_body (Some fmt) fetch =
    (case fetch (convert_request l tok fmt req_body) of
       UpstreamRejected \<Rightarrow> (Crash NetworkError, [convert_request l tok fmt req_body])
     | Upstream s None \<Rightarrow> (Crash SyntaxError, [convert_request l tok fmt req_body])
     | Upstream s (Some data) \<Rightarrow>
         (Json ([''statusCode'' \<mapsto> JNum (int s)] ++ data), [convert_request l tok fmt req_body]))"
  using assms supported_truthy [OF assms(4)]
  by (simp add: POST_def supported_list_ex truthy_def Let_def)

lemma POST_forwards_once:
  assumes "(if env_PROD e then cookie else env_VITE_API_TOKEN e) = Some tok" and "tok \<noteq> []"
    and "req_body \<noteq> []"
    and "fmt \<in> fst ` set CADMIMETypes"
  shows "snd (POST l e cookie req_body (Some fmt) fetch) = [convert_request l tok fmt req_body]"
  unfolding POST_valid [OF assms]
  by (simp split: upstream.splits option.splits)

subsection \<open>Validation\<close>

text \<open>
  C7. Before any upstream call is made (the list of upstream requests is empty), the
  proxy rejects with the authorization error 401 when no credential is available, and,
  a credential being available, with the client error 422 when the request body is
  empty, when the output format parameter is missing, or when it is not a key of
  \<open>CADMIMETypes\<close>. The credential is checked first, so each of the last three conditions
  leads to a 4xx rejection whatever the credential is.
\<close>

theorem POST_rejects_before_upstream:
  "(\<not> truthy (if env_PROD e then cookie else env_VITE_API_TOKEN e) \<longrightarrow>
      POST l e cookie req_body output_format fetch
        = (Error 401 ''You must be logged in to use this API.'', []))
   \<and> (truthy (if env_PROD e then cookie else env_VITE_API_TOKEN e)
        \<and> (req_body = [] \<or> \<not> truthy output_format
             \<or> output_format \<notin> Some ` fst ` set CADMIMETypes) \<longrightarrow>
      (\<exists>msg. POST l e cookie req_body output_format fetch = (Error 422 msg, [])))
   \<and> (req_body = [] \<or> \<not> truthy output_format
        \<or> output_format \<notin> Some ` fst ` set CADMIMETypes \<longrightarrow>
      (\<exists>c msg. POST l e cookie req_body output_format fetch = (Error c msg, [])
         \<and> 400 \<le> c \<and> c \<le> 499))"
proof -
  let ?token = "if env_PROD e then cookie else env_VITE_API_TOKEN e"
  have unauth: "POST l e cookie req_body output_format fetch
      = (Error 401 ''You must be logged in to use this API.'', [])" if "\<not> truthy ?token"
    using that by (simp add: POST_def)
  have invalid: "\<exists>msg. POST l e cookie req_body output_format fetch = (Error 422 msg, [])"
    if t: "truthy ?token"
      and bad: "req_body = [] \<or> \<not> truthy output_format
        \<or> output_format \<notin> Some ` fst ` set CADMIMETypes"
  proof -
    from t obtain tok where tok: "?token = Some tok"
      by (cases ?token) (simp_all add: truthy_def)
    show ?thesis
    proof (cases "req_body = []")
      case True
      with t tok show ?thesis by (simp add: POST_def)
    next
      case nonempty: False
      show ?thesis
      proof (cases "truthy output_format")
        case False
        with t tok nonempty show ?thesis by (simp add: POST_def)
      next
        case True
        then obtain fmt where fmt: "output_format = Some fmt"
          by (cases output_format) (simp_all add: truthy_def)
        with bad nonempty True have "fmt \<notin> fst ` set CADMIMETypes" by auto
        with t tok nonempty True fmt show ?thesis
          by (simp add: POST_def supported_list_ex)
      qed
    qed
  qed
  have any: "\<exists>c msg. POST l e cookie req_body output_format fetch = (Error c msg, [])
         \<and> 400 \<le> c \<and> c \<le> 499"
    if bad: "req_body = [] \<or> \<not> truthy output_format
        \<or> output_format \<notin> Some ` fst ` set CADMIMETypes"
  proof (cases "truthy ?token")
    case True
    from invalid [OF True bad] show ?thesis by auto
  next
    case False
    from unauth [OF False] show ?thesis by auto
  qed
  from unauth invalid any show ?thesis by blast
qed

theorem POST_rejects_before_upstream_witness:
  "POST sample_lib prod_env None ''glTF'' (Some ''stl'') upstream_down
     = (Error 401 ''You must be logged in to use this API.'', [])
   \<and> POST sample_lib dev_env None [] (Some ''stl'') upstream_down
     = (Error 422 ''Please include the model as your fetch request body.'', [])
   \<and> POST sample_lib dev_env None ''glTF'' None upstream_down
     = (Error 422 ''Please include the output format in the URL.'', [])
   \<and> POST sample_lib dev_env None ''glTF'' (Some ''dwg'') upstream_down
     = (Error 422 ''Invalid output format.'', [])"
  using
    POST_rejects_before_upstream [of prod_env None sample_lib "''glTF''" "Some ''stl''" upstream_down]
    POST_rejects_before_upstream [of dev_env None sample_lib "[]" "Some ''stl''" upstream_down]
    POST_rejects_before_upstream [of dev_env None sample_lib "''glTF''" None upstream_down]
    POST_rejects_before_upstream [of dev_env None sample_lib "''glTF''" "Some ''dwg''" upstream_down]
  by (simp add: POST_def truthy_def CADMIMETypes_def sample_defs)

subsection \<open>The reply\<close>

text \<open>
  C8, as amended. For a POST that passes validation and whose upstream response parses
  to a JSON object without a \<open>statusCode\<close> field of its own (its declared type,
  \<open>Models['FileConversion_type']\<close>, has none), the proxy replies with a JSON object whose
  \<open>statusCode\<close> is the upstream HTTP status and whose other fields are the upstream
  object's.
\<close>

theorem POST_reply_mirrors_status:
  assumes "(if env_PROD e then cookie else env_VITE_API_TOKEN e) = Some tok" and "tok \<noteq> []"
    and "req_body \<noteq> []"
    and "fmt \<in> fst ` set CADMIMETypes"
    and "fetch (convert_request l tok fmt req_body) = Upstream s (Some data)"
    and "data ''statusCode'' = None"
  shows "(\<exists>j. fst (POST l e cookie req_body (Some fmt) fetch) = Json j)
    \<and> reply_field (fst (POST l e cookie req_body (Some fmt) fetch)) ''statusCode'' = Some (JNum (int s))
    \<and> (\<forall>k. k \<noteq> ''statusCode'' \<longrightarrow>
          reply_field (fst (POST l e cookie req_body (Some fmt) fetch)) k = data k)"
  unfolding POST_valid [OF assms(1-4)] assms(5)
  using assms(6) by (auto simp: reply_field_def map_add_def split: option.splits)

text \<open>
  The claim as stated fails on an upstream object that has a \<open>statusCode\<close> field: the
  spread \<^verbatim>\<open>...data\<close> comes after \<^verbatim>\<open>statusCode: response.status\<close> in the object literal,
  so the upstream field replaces the HTTP status (here 500 replaces 200).
\<close>

theorem POST_reply_mirrors_status_counterexample:
  "reply_field (fst (POST sample_lib dev_env None ''glTF'' (Some ''stl'')
      upstream_own_statusCode)) ''statusCode''
     = Some (JNum 500)"
  by (simp add: POST_def reply_field_def truthy_def CADMIMETypes_def convert_request_def
      sample_defs)

theorem POST_reply_mirrors_status_witness:
  "reply_field (fst (POST sample_lib dev_env None ''glTF'' (Some ''stl'')
      upstream_completed)) ''statusCode''
     = Some (JNum 201)
   \<and> reply_field (fst (POST sample_lib dev_env None ''glTF'' (Some ''stl'')
      upstream_completed)) ''status''
     = Some (JStr ''completed'')"
  using POST_reply_mirrors_status
    [where e = dev_env
       and cookie = None and tok = "''dev-token''" and req_body = "''glTF''" and fmt = "''stl''"
       and l = sample_lib and s = "201" and data = "[''status'' \<mapsto> JStr ''completed'']"
       and fetch = upstream_completed]
  by (simp add: CADMIMETypes_def sample_defs)

subsection \<open>The upstream request\<close>

text \<open>
  C9. A POST that passes validation issues exactly one upstream request, with the text
  that \<^verbatim>\<open>request.text()\<close> read from the client's body as its body and with the bearer
  credential (\<open>POST_forwards_once\<close>), but its Content-Type
  header is not an octet-stream content type: the handler writes
  \<open>application/octect-stream\<close>, where the component's own fetch and \<open>CADMIMETypes\<close> write
  \<open>application/octet-stream\<close>.
\<close>

theorem POST_content_type_misspelt:
  "map headers (snd (POST sample_lib dev_env None ''glTF'' (Some ''stl'') upstream_completed))
     = [[(''Content-Type'', ''application/octect-stream''),
         (''Authorization'', ''Bearer dev-token'')]]
   \<and> ''application/octect-stream'' \<noteq> ''application/octet-stream''"
  by (simp add: POST_def truthy_def CADMIMETypes_def convert_request_def sample_defs)

end
